theory Spec2Isabelle
  imports Complex_Main "HOL-Library.Word"
begin

section \<open>Arithmetic of the C types used by rfmix\<close>

text \<open>
  A C \<open>double\<close> is modelled by its IEEE-754 shape: a finite value, one of the two
  infinities, or a NaN. Finite values are idealised as exact reals, so rounding of the
  individual operations is not part of the model; the special values and the operations
  that produce them (division by zero, logarithm of zero, overflow) are. The model has
  one zero, standing for \<open>+0.0\<close>, which is what \<open>1.0 - 1.0\<close> yields.
\<close>

datatype dbl = Fin real | PInf | MInf | NaN

text \<open>The sign of an infinite result, given whether it is negative.\<close>

definition signed_inf :: "bool \<Rightarrow> dbl" where
  "signed_inf negative = (if negative then MInf else PInf)"

text \<open>
  The result of an operation on finite operands: a value whose magnitude reaches
  \<open>2 ^ 1024\<close> is beyond the largest double and becomes an infinity.
\<close>

definition overflow :: "real \<Rightarrow> dbl" where
  "overflow x = (if 2 ^ 1024 \<le> \<bar>x\<bar> then signed_inf (x < 0) else Fin x)"

fun dneg :: "dbl \<Rightarrow> dbl" where
  "dneg (Fin a) = Fin (- a)"
| "dneg PInf = MInf"
| "dneg MInf = PInf"
| "dneg NaN = NaN"

fun dadd :: "dbl \<Rightarrow> dbl \<Rightarrow> dbl" where
  "dadd (Fin a) (Fin b) = overflow (a + b)"
| "dadd NaN _ = NaN"
| "dadd _ NaN = NaN"
| "dadd PInf MInf = NaN"
| "dadd MInf PInf = NaN"
| "dadd PInf _ = PInf"
| "dadd MInf _ = MInf"
| "dadd (Fin a) PInf = PInf"
| "dadd (Fin a) MInf = MInf"

definition dsub :: "dbl \<Rightarrow> dbl \<Rightarrow> dbl" where
  "dsub a b = dadd a (dneg b)"

fun dmul :: "dbl \<Rightarrow> dbl \<Rightarrow> dbl" where
  "dmul (Fin a) (Fin b) = overflow (a * b)"
| "dmul NaN _ = NaN"
| "dmul _ NaN = NaN"
| "dmul (Fin a) PInf = (if a = 0 then NaN else signed_inf (a < 0))"
| "dmul (Fin a) MInf = (if a = 0 then NaN else signed_inf (0 < a))"
| "dmul PInf (Fin b) = (if b = 0 then NaN else signed_inf (b < 0))"
| "dmul MInf (Fin b) = (if b = 0 then NaN else signed_inf (0 < b))"
| "dmul PInf PInf = PInf"
| "dmul MInf MInf = PInf"
| "dmul PInf MInf = MInf"
| "dmul MInf PInf = MInf"

fun ddiv :: "dbl \<Rightarrow> dbl \<Rightarrow> dbl" where
  "ddiv (Fin a) (Fin b) =
     (if b = 0 then (if a = 0 then NaN else signed_inf (a < 0)) else overflow (a / b))"
| "ddiv NaN _ = NaN"
| "ddiv _ NaN = NaN"
| "ddiv (Fin a) PInf = Fin 0"
| "ddiv (Fin a) MInf = Fin 0"
| "ddiv PInf (Fin b) = signed_inf (b < 0)"
| "ddiv MInf (Fin b) = signed_inf (0 \<le> b)"
| "ddiv PInf _ = NaN"
| "ddiv MInf _ = NaN"

text \<open>\<open>log\<close> of \<open>math.h\<close>: the natural logarithm, minus infinity at zero, NaN below.\<close>

fun dlog :: "dbl \<Rightarrow> dbl" where
  "dlog (Fin a) = (if a < 0 then NaN else if a = 0 then MInf else Fin (ln a))"
| "dlog PInf = PInf"
| "dlog MInf = NaN"
| "dlog NaN = NaN"

text \<open>The comparisons \<open><\<close> and \<open>>\<close> on doubles; every comparison with a NaN is false.\<close>

fun dless :: "dbl \<Rightarrow> dbl \<Rightarrow> bool" where
  "dless (Fin a) (Fin b) = (a < b)"
| "dless NaN _ = False"
| "dless _ NaN = False"
| "dless PInf _ = False"
| "dless _ MInf = False"
| "dless MInf _ = True"
| "dless (Fin a) PInf = True"

text \<open>
  Conversion of a double to \<open>int\<close> (32 bits) discards the fractional part, rounding
  towards zero. When the result does not fit, or the operand is infinite or a NaN, C
  defines no value for the conversion: the model returns \<open>None\<close> there.
\<close>

definition trunc :: "real \<Rightarrow> int" where
  "trunc x = (if 0 \<le> x then \<lfloor>x\<rfloor> else \<lceil>x\<rceil>)"

definition INT_MIN :: int where
  "INT_MIN = - (2 ^ 31)"

definition INT_MAX :: int where
  "INT_MAX = 2 ^ 31 - 1"

fun to_int :: "dbl \<Rightarrow> int option" where
  "to_int (Fin x) = (if INT_MIN \<le> trunc x \<and> trunc x \<le> INT_MAX then Some (trunc x) else None)"
| "to_int PInf = None"
| "to_int MInf = None"
| "to_int NaN = None"

section \<open>The probability codec of rfmix.h\<close>

text \<open>
  \<open>DF8(x)\<close> and \<open>DF16(x)\<close> are macros applied to integer codes. For an integer operand
  every intermediate value is finite, the divisor \<open>1.0 + exp(...)\<close> is positive, and the
  result is the real number below.
\<close>

definition DF8 :: "int \<Rightarrow> real" where
  "DF8 x = 1 / (1 + exp (real_of_int x / - 12))"

definition DF16 :: "int \<Rightarrow> real" where
  "DF16 x = 1 / (1 + exp (real_of_int x / - 1024))"

text \<open>
  \<open>ef8\<close> and \<open>ef16\<close> compute the log-odds in doubles, convert to \<open>int\<close>, clamp, and
  return the clamped value as \<open>int8_t\<close> or \<open>int16_t\<close>. The result is \<open>None\<close> where the
  conversion to \<open>int\<close> has no defined value.
\<close>

definition ef8 :: "dbl \<Rightarrow> 8 word option" where
  "ef8 p =
     (case to_int (dmul (Fin (- 12)) (dlog (ddiv (dsub (Fin 1) p) p))) of
        None \<Rightarrow> None
      | Some tmp0 \<Rightarrow>
          (let tmp1 = (if tmp0 < - 127 then - 127 else tmp0);
               tmp2 = (if tmp1 > 127 then 127 else tmp1)
           in Some (word_of_int tmp2)))"

definition ef16 :: "dbl \<Rightarrow> 16 word option" where
  "ef16 p =
     (case to_int (dmul (Fin (- 1024)) (dlog (ddiv (dsub (Fin 1) p) p))) of
        None \<Rightarrow> None
      | Some tmp0 \<Rightarrow>
          (let tmp1 = (if tmp0 < - 32767 then - 32767 else tmp0);
               tmp2 = (if tmp1 > 32767 then 32767 else tmp1)
           in Some (word_of_int tmp2)))"

text \<open>
  The normal doubles strictly between 0 and 1 lie between \<open>1 / 2 ^ 1022\<close>, the least
  normal double, and \<open>1 - 1 / 2 ^ 53\<close>, the greatest double below 1. On this interval
  the quotient \<open>(1.0 - p) / p\<close> does not overflow.
\<close>

definition unit_double :: "real \<Rightarrow> bool" where
  "unit_double p \<longleftrightarrow> 1 / 2 ^ 1022 \<le> p \<and> p \<le> 1 - 1 / 2 ^ 53"

section \<open>Program options and their validation (rfmix.cpp)\<close>

text \<open>
  The option structure. The fields \<open>bootstrap_mode\<close>, \<open>em_iterations\<close>, \<open>minimum_snps\<close>,
  \<open>analyze_str\<close> and \<open>analyze_range\<close> are used by rfmix.cpp and typed here by that use;
  the other fields have the types rfmix.h declares, in particular \<open>rf_window_size\<close> and
  \<open>crf_spacing\<close> are \<open>int\<close>. No arithmetic is done on the \<open>int\<close> fields, they are only
  compared with constants. A field assigned from a double holds \<open>None\<close> when the
  conversion has no defined value.
\<close>

record rfmix_opts =
  qvcf_fname :: string
  rvcf_fname :: string
  genetic_fname :: string
  class_fname :: string
  output_basename :: string
  maximum_missing_data_freq :: dbl
  n_generations :: int
  rf_window_size :: int
  crf_spacing :: int
  generations :: int
  n_trees :: int
  reanalyze_reference :: int
  bootstrap_mode :: int
  em_iterations :: int
  minimum_snps :: int
  analyze_str :: string
  analyze_range :: "int option \<times> int option"
  n_threads :: int
  chromosome :: string
  random_seed_str :: string
  random_seed :: "int option"

text \<open>A call of \<open>exit\<close> ends the process with a status; otherwise a function returns.\<close>

datatype 'a outcome = Exit int | Return 'a

text \<open>
  What lies outside the two source files: the constant \<open>N_RF_BOOTSTRAP\<close> of
  random-forest.h, the processor count reported by \<open>sysconf\<close>, the command line parser
  of cmdline-utils.h (its effect on the option structure, or its exit), the clock, and
  the C library's \<open>strtod\<close> and \<open>atof\<close>.
\<close>

record env =
  N_RF_BOOTSTRAP :: int
  nprocessors_conf :: int
  cmdline_getoptions :: "rfmix_opts \<Rightarrow> rfmix_opts outcome"
  time_now :: int
  strtod :: "string \<Rightarrow> dbl"
  atof :: "string \<Rightarrow> dbl"

text \<open>The messages written to stderr, and the text of the fixed ones.\<close>

datatype diag =
    NoQueryFile | NoReferenceFile | NoGeneticMap | NoSampleMap | NoOutputBasename
  | MaxMissingRange | RfWindowSize | CrfSpacing | NGenerations | TooFewTrees
  | BootstrapRange | InvalidAnalyzeRange | AnalyzeNotice "int option" "int option"
  | NoChromosome | CorrectErrors | Blank

fun diag_text :: "diag \<Rightarrow> string" where
  "diag_text NoQueryFile = CHR 0x0A # ''Specify query/admixed VCF input file with -f option''"
| "diag_text NoReferenceFile = CHR 0x0A # ''Specify reference VCF input file with -r option''"
| "diag_text NoGeneticMap = CHR 0x0A # ''Specify genetic map file with -g option''"
| "diag_text NoSampleMap =
     CHR 0x0A # ''Specify reference sample subpopulation mapping with -m option''"
| "diag_text NoOutputBasename =
     CHR 0x0A # ''Specify output files basename (prefix) with -o option''"
| "diag_text MaxMissingRange = CHR 0x0A # ''Range for --max-missing option is 0.0 to 1.0''"
| "diag_text RfWindowSize = CHR 0x0A # ''Random Forest window size must be greater than 0''"
| "diag_text CrfSpacing = CHR 0x0A # ''Conditional random field size must be larger than 0''"
| "diag_text NGenerations =
     CHR 0x0A # ''Number of generations since putative admixture must be larger than 0.''"
| "diag_text TooFewTrees = CHR 0x0A # ''Number of random forest trees must be at least 10''"
| "diag_text BootstrapRange =
     CHR 0x0A # ''Bootstrap mode (-b) out of valid range - see manual''"
| "diag_text InvalidAnalyzeRange =
     ''Invalid physical range to analyze (--analyze-range)'' @ [CHR 0x0A]"
| "diag_text (AnalyzeNotice lo hi) =
     ''NOTICE: Analysis restricted to positions in range %d to %d'' @ [CHR 0x0A]"
| "diag_text NoChromosome = CHR 0x0A # ''Specify VCF chromosome to analyze with -c option''"
| "diag_text CorrectErrors =
     [CHR 0x0A, CHR 0x0A]
     @ ''Correct command line errors to run rfmix. Run program with no options for help''
     @ [CHR 0x0A]"
| "diag_text Blank = [CHR 0x0A]"

text \<open>What the process does that is visible from outside, in order.\<close>

datatype event =
    Stderr diag | Srand "int option"
  | LoadInput | RandomForest | Crf | MspOutput | FbOutput | FbStayInStateOutput | FreeInput

text \<open>
  \<open>rfmix_opts\<close> is a global, so the fields \<open>init_options\<close> does not assign are zero.
  The constants 0.2 and 0.1 are assigned to \<open>int\<close> fields and so converted.
\<close>

definition init_options :: "env \<Rightarrow> rfmix_opts" where
  "init_options env =
     \<lparr> qvcf_fname = '''',
       rvcf_fname = '''',
       genetic_fname = '''',
       class_fname = '''',
       output_basename = '''',
       maximum_missing_data_freq = Fin (5 / 100),
       n_generations = 8,
       rf_window_size = trunc (2 / 10),
       crf_spacing = trunc (1 / 10),
       generations = 0,
       n_trees = 100,
       reanalyze_reference = 0,
       bootstrap_mode = 1,
       em_iterations = 0,
       minimum_snps = 10,
       analyze_str = '''',
       analyze_range = (Some INT_MIN, Some INT_MAX),
       n_threads = nprocessors_conf env,
       chromosome = '''',
       random_seed_str = ''0xDEADBEEF'',
       random_seed = Some 0 \<rparr>"

text \<open>
  \<open>strsep(&end, delim)\<close>: the token before the first delimiter, and the rest of the
  string after it, or no rest (\<open>end == NULL\<close>) when the string has no delimiter.
\<close>

definition strsep :: "string \<Rightarrow> string \<Rightarrow> string \<times> string option" where
  "strsep s delim =
     (takeWhile (\<lambda>c. c \<notin> set delim) s,
      if set s \<inter> set delim = {} then None
      else Some (tl (dropWhile (\<lambda>c. c \<notin> set delim) s)))"

text \<open>
  \<open>verify_options\<close> works on the global option structure, writes to stderr and keeps a
  local flag \<open>stop\<close>: that is the state its statements transform, one after the other.
\<close>

record vstate =
  cur :: rfmix_opts
  trace :: "event list"
  stop :: bool

text \<open>The repeated shape \<open>if (cond) { fprintf(stderr, msg); stop = 1; }\<close>.\<close>

definition complain :: "diag \<Rightarrow> vstate \<Rightarrow> vstate" where
  "complain msg st = st\<lparr>trace := trace st @ [Stderr msg], stop := True\<rparr>"

definition check :: "(rfmix_opts \<Rightarrow> bool) \<Rightarrow> diag \<Rightarrow> vstate \<Rightarrow> vstate" where
  "check cond msg st = (if cond (cur st) then complain msg st else st)"

text \<open>
  The block on \<open>analyze_str\<close> (lines 141 to 155). \<open>strdup\<close> is taken to succeed, so
  that \<open>start\<close> is never NULL.
\<close>

definition analyze_range_step :: "env \<Rightarrow> vstate \<Rightarrow> vstate" where
  "analyze_range_step env st =
     (if analyze_str (cur st) \<noteq> '''' then
        (case strsep (analyze_str (cur st)) ''-'' of
           (start, None) \<Rightarrow> complain InvalidAnalyzeRange st
         | (start, Some rest) \<Rightarrow>
             (let lo = to_int (dmul (atof env start) (Fin 1000000));
                  hi = to_int (dmul (atof env rest) (Fin 1000000))
              in st\<lparr>cur := (cur st)\<lparr>analyze_range := (lo, hi)\<rparr>,
                    trace := trace st @ [Stderr (AnalyzeNotice lo hi)]\<rparr>))
      else st)"

text \<open>Line 157.\<close>

definition n_threads_step :: "vstate \<Rightarrow> vstate" where
  "n_threads_step st =
     (if n_threads (cur st) < 1 then st\<lparr>cur := (cur st)\<lparr>n_threads := 1\<rparr>\<rparr> else st)"

text \<open>
  Lines 163 to 171. \<open>time(NULL)\<close> is a 64-bit \<open>time_t\<close> stored into an \<open>int\<close>, so
  reduced to 32 bits; \<open>strtod\<close> returns a double, converted to \<open>int\<close>.
\<close>

definition random_seed_step :: "env \<Rightarrow> vstate \<Rightarrow> vstate" where
  "random_seed_step env st =
     (let seed =
            (if random_seed_str (cur st) = ''clock''
             then Some (signed_take_bit 31 (time_now env))
             else to_int (strtod env (random_seed_str (cur st))))
      in st\<lparr>cur := (cur st)\<lparr>random_seed := seed\<rparr>, trace := trace st @ [Srand seed]\<rparr>)"

text \<open>
  \<open>verify_options\<close> returns what it wrote and either the exit status or the option
  structure it leaves.
\<close>

definition verify_options :: "env \<Rightarrow> rfmix_opts \<Rightarrow> event list \<times> rfmix_opts outcome" where
  "verify_options env opts =
     (let st = \<lparr>cur = opts, trace = [], stop = False\<rparr>;
          st = check (\<lambda>opts. qvcf_fname opts = '''') NoQueryFile st;
          st = check (\<lambda>opts. rvcf_fname opts = '''') NoReferenceFile st;
          st = check (\<lambda>opts. genetic_fname opts = '''') NoGeneticMap st;
          st = check (\<lambda>opts. class_fname opts = '''') NoSampleMap st;
          st = check (\<lambda>opts. output_basename opts = '''') NoOutputBasename st;
          st = check (\<lambda>opts. dless (maximum_missing_data_freq opts) (Fin 0)
                             \<or> dless (Fin 1) (maximum_missing_data_freq opts))
                 MaxMissingRange st;
          st = check (\<lambda>opts. rf_window_size opts \<le> 0) RfWindowSize st;
          st = check (\<lambda>opts. crf_spacing opts \<le> 0) CrfSpacing st;
          st = check (\<lambda>opts. n_generations opts < 0) NGenerations st;
          st = check (\<lambda>opts. n_trees opts < 10) TooFewTrees st;
          st = check (\<lambda>opts. bootstrap_mode opts < 0
                             \<or> bootstrap_mode opts \<ge> N_RF_BOOTSTRAP env)
                 BootstrapRange st;
          st = analyze_range_step env st;
          st = n_threads_step st;
          st = check (\<lambda>opts. chromosome opts = '''') NoChromosome st;
          st = random_seed_step env st
      in if stop st then (trace st @ [Stderr CorrectErrors], Exit (- 1))
         else (trace st, Return (cur st)))"

text \<open>
  \<open>main\<close>: the calls it makes in order, each callee after \<open>verify_options\<close> taken to
  return, and the status it ends with.
\<close>

definition main :: "env \<Rightarrow> event list \<times> int outcome" where
  "main env =
     (case cmdline_getoptions env (init_options env) of
        Exit status \<Rightarrow> ([], Exit status)
      | Return opts \<Rightarrow>
          (case verify_options env opts of
             (out, Exit status) \<Rightarrow> (out, Exit status)
           | (out, Return opts') \<Rightarrow>
               (out @ [Stderr Blank, LoadInput, RandomForest, Crf, MspOutput, FbOutput,
                       FbStayInStateOutput, FreeInput],
                Return 0)))"


section \<open>Properties of the codec\<close>

subsection \<open>Truncation\<close>

lemma trunc_cases:
  "(0 \<le> x \<and> 0 \<le> trunc x \<and> real_of_int (trunc x) \<le> x \<and> x < real_of_int (trunc x) + 1) \<or>
   (x < 0 \<and> trunc x \<le> 0 \<and> x \<le> real_of_int (trunc x) \<and> real_of_int (trunc x) - 1 < x)"
proof (cases "0 \<le> x")
  case True
  then have "trunc x = \<lfloor>x\<rfloor>" by (simp add: trunc_def)
  with True show ?thesis
    using floor_correct [of x] by simp
next
  case False
  then have "trunc x = \<lceil>x\<rceil>" by (simp add: trunc_def)
  with False show ?thesis
    using ceiling_correct [of x] by simp
qed



lemma trunc_error: "\<bar>real_of_int (trunc x) - x\<bar> < 1"
  using trunc_cases [of x] by linarith

lemma trunc_bounds: "\<bar>x\<bar> < real_of_int n \<Longrightarrow> - n < trunc x \<and> trunc x < n"
  using trunc_cases [of x] by linarith

lemma trunc_zero: "- 1 < x \<Longrightarrow> x < 1 \<Longrightarrow> trunc x = 0"
  using trunc_cases [of x] by linarith


subsection \<open>The logistic function\<close>

lemma logistic_Lipschitz:
  "\<bar>1 / (1 + exp (- a)) - 1 / (1 + exp (- b))\<bar> \<le> \<bar>a - b\<bar> / 4" for a b :: real
proof -
  have slope: "1 / (1 + exp (- v)) - 1 / (1 + exp (- u)) \<le> (v - u) / 4
               \<and> 0 \<le> 1 / (1 + exp (- v)) - 1 / (1 + exp (- u))" if "u < v" for u v :: real
  proof -
    have "\<exists>z. u < z \<and> z < v \<and>
            1 / (1 + exp (- v)) - 1 / (1 + exp (- u))
              = (v - u) * (exp (- z) / (1 + exp (- z))\<^sup>2)"
    proof (rule MVT2 [OF that])
      fix t :: real
      have pos: "1 + exp (- t) \<noteq> 0"
        using exp_gt_zero [of "- t"] by linarith
      show "((\<lambda>t. 1 / (1 + exp (- t))) has_real_derivative exp (- t) / (1 + exp (- t))\<^sup>2) (at t)"
        by (rule derivative_eq_intros refl pos | simp add: power2_eq_square)+
    qed
    then obtain z where z: "1 / (1 + exp (- v)) - 1 / (1 + exp (- u))
              = (v - u) * (exp (- z) / (1 + exp (- z))\<^sup>2)" by blast
    define e where "e = exp (- z)"
    have e: "0 < e" by (simp add: e_def)
    have "0 \<le> (1 - e)\<^sup>2" by simp
    then have "4 * e \<le> (1 + e)\<^sup>2" by (simp add: power2_eq_square algebra_simps)
    then have le: "e / (1 + e)\<^sup>2 \<le> 1 / 4"
      using e by (simp add: field_simps)
    have ge: "0 \<le> e / (1 + e)\<^sup>2" using e by simp
    from that le ge have "(v - u) * (e / (1 + e)\<^sup>2) \<le> (v - u) * (1 / 4)"
      by (intro mult_left_mono) simp_all
    moreover from that ge have "0 \<le> (v - u) * (e / (1 + e)\<^sup>2)"
      by (intro mult_nonneg_nonneg) simp_all
    ultimately show ?thesis unfolding z e_def by simp
  qed
  consider "a < b" | "a = b" | "b < a" by linarith
  then show ?thesis
  proof cases
    case 1 with slope [of a b] show ?thesis by simp
  next
    case 2 then show ?thesis by simp
  next
    case 3 with slope [of b a] show ?thesis by simp
  qed
qed

lemma logistic_mono: "a \<le> b \<Longrightarrow> 1 / (1 + exp (- a)) \<le> 1 / (1 + exp (- b))" for a b :: real
  by (simp add: frac_le add_pos_pos)

lemma logistic_odds:
  fixes p :: real
  assumes "0 < p" "p < 1"
  shows "1 / (1 + exp (ln ((1 - p) / p))) = p"
proof -
  have "0 < (1 - p) / p"
    by (rule divide_pos_pos) (use assms in simp_all)
  then have "exp (ln ((1 - p) / p)) = (1 - p) / p" by simp
  with assms show ?thesis by (simp add: field_simps)
qed

subsection \<open>The encoders on normal doubles strictly between 0 and 1\<close>

lemma overflow_Fin: "\<bar>x\<bar> < 2 ^ 1024 \<Longrightarrow> overflow x = Fin x"
  by (simp add: overflow_def)

lemma unit_double_open: "unit_double p \<Longrightarrow> 0 < p \<and> p < 1"
proof -
  assume u: "unit_double p"
  have "(0::real) < 1 / 2 ^ 1022" by simp
  moreover have "(0::real) < 1 / 2 ^ 53" by simp
  ultimately show ?thesis using u unfolding unit_double_def by linarith
qed

lemma odds_bounds:
  assumes "unit_double p"
  shows "1 / 2 ^ 53 \<le> (1 - p) / p" and "(1 - p) / p \<le> 2 ^ 1022"
proof -
  from assms have p: "0 < p" "p < 1" using unit_double_open by blast+
  from assms have lo: "1 / 2 ^ 1022 \<le> p" and hi: "1 / 2 ^ 53 \<le> 1 - p"
    by (simp_all add: unit_double_def)
  have "(1 - p) / p \<le> 1 / p" using p by (simp add: divide_right_mono)
  also have "\<dots> \<le> 2 ^ 1022" using lo p by (simp add: field_simps)
  finally show "(1 - p) / p \<le> 2 ^ 1022" .
  have "1 / 2 ^ 53 \<le> 1 - p" by (rule hi)
  also have "1 - p = (1 - p) / 1" by simp
  also have "\<dots> \<le> (1 - p) / p"
    by (rule divide_left_mono) (use p in simp_all)
  finally show "1 / 2 ^ 53 \<le> (1 - p) / p" .
qed

lemma ln_2_le_1: "ln (2::real) \<le> 1"
  using ln_le_minus_one [of "2::real"] by simp

lemma log_odds_bound:
  assumes "unit_double p"
  shows "\<bar>ln ((1 - p) / p)\<bar> \<le> 1022"
proof -
  have "(0::real) < 1 / 2 ^ 53" by simp
  with odds_bounds(1) [OF assms] have r: "0 < (1 - p) / p" by linarith
  have "ln ((1 - p) / p) \<le> ln (2 ^ 1022)"
    using r odds_bounds(2) [OF assms] by simp
  also have "\<dots> = 1022 * ln 2"
    using ln_realpow [of "2::real" 1022] by (simp only: of_nat_numeral)
  also have "\<dots> \<le> 1022" using ln_2_le_1 by simp
  finally have up: "ln ((1 - p) / p) \<le> 1022" .
  have "ln (1 / 2 ^ 53) \<le> ln ((1 - p) / p)"
    using r odds_bounds(1) [OF assms] by simp
  moreover have "ln (1 / 2 ^ 53 :: real) = - (53 * ln 2)"
    using ln_realpow [of "2::real" 53] ln_inverse [of "2 ^ 53 :: real"]
    by (simp only: of_nat_numeral inverse_eq_divide)
  moreover have "53 * ln (2::real) \<le> 53" using ln_2_le_1 by simp
  ultimately have "- 1022 \<le> ln ((1 - p) / p)" by linarith
  with up show ?thesis by linarith
qed

lemma log_odds_Fin:
  assumes "unit_double p" and "\<bar>k\<bar> \<le> 1024"
  shows "dmul (Fin k) (dlog (ddiv (dsub (Fin 1) (Fin p)) (Fin p))) = Fin (k * ln ((1 - p) / p))"
proof -
  from assms have p: "0 < p" "p < 1" using unit_double_open by blast+
  have "(0::real) < 1 / 2 ^ 53" by simp
  with odds_bounds(1) [OF assms(1)] have pos: "0 < (1 - p) / p" by linarith
  have "\<bar>1 + - p\<bar> < 2 ^ 1024" using p by simp
  then have sub: "dsub (Fin 1) (Fin p) = Fin (1 - p)"
    by (simp add: dsub_def overflow_Fin)
  have "(2::real) ^ 1022 < 2 ^ 1024" by simp
  with odds_bounds(2) [OF assms(1)] pos have "\<bar>(1 - p) / p\<bar> < 2 ^ 1024" by linarith
  then have "overflow ((1 - p) / p) = Fin ((1 - p) / p)" by (rule overflow_Fin)
  moreover from p have "p \<noteq> 0" by simp
  ultimately have quot: "ddiv (Fin (1 - p)) (Fin p) = Fin ((1 - p) / p)"
    by (simp only: ddiv.simps if_False)
  from pos have "\<not> (1 - p) / p < 0" and "(1 - p) / p \<noteq> 0"
    by linarith+
  then have log: "dlog (Fin ((1 - p) / p)) = Fin (ln ((1 - p) / p))"
    by (simp only: dlog.simps if_False)
  have "\<bar>k * ln ((1 - p) / p)\<bar> = \<bar>k\<bar> * \<bar>ln ((1 - p) / p)\<bar>" by (simp add: abs_mult)
  also have "\<dots> \<le> 1024 * 1022"
    using assms(2) log_odds_bound [OF assms(1)] by (intro mult_mono) simp_all
  also have "(1024 * 1022 :: real) < 2 ^ 1024" by simp
  finally have "overflow (k * ln ((1 - p) / p)) = Fin (k * ln ((1 - p) / p))"
    by (rule overflow_Fin)
  then show ?thesis
    by (simp only: sub quot log dmul.simps)
qed

lemma to_int_log_odds:
  assumes "unit_double p" and "\<bar>k\<bar> \<le> 1024"
  shows "to_int (dmul (Fin k) (dlog (ddiv (dsub (Fin 1) (Fin p)) (Fin p))))
         = Some (trunc (k * ln ((1 - p) / p)))"
proof -
  have "\<bar>k * ln ((1 - p) / p)\<bar> = \<bar>k\<bar> * \<bar>ln ((1 - p) / p)\<bar>" by (simp add: abs_mult)
  also have "\<dots> \<le> 1024 * 1022"
    using assms(2) log_odds_bound [OF assms(1)] by (intro mult_mono) simp_all
  finally have "\<bar>k * ln ((1 - p) / p)\<bar> < real_of_int 2147483647" by simp
  from trunc_bounds [OF this]
  have "INT_MIN \<le> trunc (k * ln ((1 - p) / p)) \<and> trunc (k * ln ((1 - p) / p)) \<le> INT_MAX"
    by (simp add: INT_MIN_def INT_MAX_def)
  then show ?thesis
    by (simp add: log_odds_Fin [OF assms])
qed

lemma sint_int8: "- 128 \<le> c \<Longrightarrow> c < 128 \<Longrightarrow> sint (word_of_int c :: 8 word) = c"
  by (simp add: sint_sbintrunc' signed_take_bit_int_eq_self)

lemma sint_int16: "- 32768 \<le> c \<Longrightarrow> c < 32768 \<Longrightarrow> sint (word_of_int c :: 16 word) = c"
  by (simp add: sint_sbintrunc' signed_take_bit_int_eq_self)

lemma ef8_Fin:
  assumes "unit_double p"
  shows "\<exists>w. ef8 (Fin p) = Some w \<and>
             sint w = max (- 127) (min 127 (trunc (- 12 * ln ((1 - p) / p))))"
proof -
  have "to_int (dmul (Fin (- 12)) (dlog (ddiv (dsub (Fin 1) (Fin p)) (Fin p))))
         = Some (trunc (- 12 * ln ((1 - p) / p)))"
    by (rule to_int_log_odds [OF assms]) simp
  then show ?thesis
    by (simp add: ef8_def Let_def sint_int8 max_def min_def)
qed

lemma ef16_Fin:
  assumes "unit_double p"
  shows "\<exists>w. ef16 (Fin p) = Some w \<and>
             sint w = max (- 32767) (min 32767 (trunc (- 1024 * ln ((1 - p) / p))))"
proof -
  have "to_int (dmul (Fin (- 1024)) (dlog (ddiv (dsub (Fin 1) (Fin p)) (Fin p))))
         = Some (trunc (- 1024 * ln ((1 - p) / p)))"
    by (rule to_int_log_odds [OF assms]) simp
  then show ?thesis
    by (simp add: ef16_def Let_def sint_int16 max_def min_def)
qed



lemma logistic_flip: "1 / (1 + exp a) = 1 - 1 / (1 + exp (- a))" for a :: real
proof -
  define e where "e = exp a"
  have e: "0 < e" by (simp add: e_def)
  have "exp (- a) = 1 / e" by (simp add: e_def exp_minus inverse_eq_divide)
  moreover have "1 / (1 + e) = 1 - 1 / (1 + 1 / e)"
    using e by (simp add: field_simps)
  ultimately show ?thesis by (simp add: e_def)
qed

lemma DF8_logistic: "DF8 x = 1 / (1 + exp (- (real_of_int x / 12)))"
  by (simp add: DF8_def)

lemma DF16_logistic: "DF16 x = 1 / (1 + exp (- (real_of_int x / 1024)))"
  by (simp add: DF16_def)

lemma DF8_flip: "DF8 (- x) = 1 - DF8 x"
  using logistic_flip [of "real_of_int x / 12"] by (simp add: DF8_def)






lemma roundtrip_error:
  fixes k p :: real
  assumes "0 < k" "0 < p" "p < 1"
  shows "\<bar>1 / (1 + exp (- (real_of_int (trunc (- k * ln ((1 - p) / p))) / k))) - p\<bar> < 1 / (4 * k)"
proof -
  define L where "L = ln ((1 - p) / p)"
  define t where "t = real_of_int (trunc (- k * L))"
  have p: "p = 1 / (1 + exp (- (- L)))"
    using logistic_odds [OF assms(2,3)] by (simp add: L_def)
  have "\<bar>1 / (1 + exp (- (t / k))) - 1 / (1 + exp (- (- L)))\<bar> \<le> \<bar>t / k - (- L)\<bar> / 4"
    by (rule logistic_Lipschitz)
  also have "t / k - (- L) = (t - (- k * L)) / k"
    using assms(1) by (simp add: field_simps)
  also have "\<bar>(t - (- k * L)) / k\<bar> = \<bar>t - (- k * L)\<bar> / k"
    using assms(1) by simp
  also have "\<bar>t - (- k * L)\<bar> / k / 4 < 1 / k / 4"
    using trunc_error [of "- k * L"] assms(1) unfolding t_def
    by (intro divide_strict_right_mono) simp_all
  finally have "\<bar>1 / (1 + exp (- (t / k))) - 1 / (1 + exp (- (- L)))\<bar> < 1 / (4 * k)"
    by simp
  then show ?thesis
    unfolding t_def L_def using logistic_odds [OF assms(2,3)] by simp
qed

lemma exp_third_power: "33334 < exp (32 / 3 :: real)"
proof -
  have "(25 / 18 :: real) \<le> exp (1 / 3)"
    using exp_lower_Taylor_quadratic [of "1 / 3 :: real"] by (simp add: power2_eq_square)
  then have "(25 / 18 :: real) ^ 32 \<le> exp (1 / 3) ^ 32"
    by (intro power_mono) simp_all
  also have "exp (1 / 3 :: real) ^ 32 = exp (32 / 3)"
    using exp_of_nat_mult [of 32 "1 / 3 :: real"] by simp
  finally have "(25 / 18 :: real) ^ 32 \<le> exp (32 / 3)" .
  moreover have "(33334 :: real) < (25 / 18) ^ 32" by (simp add: power_divide)
  ultimately show ?thesis by linarith
qed

lemma log_odds_small:
  fixes p :: real
  assumes "3 / 100000 \<le> p" "p \<le> 99997 / 100000"
  shows "\<bar>ln ((1 - p) / p)\<bar> < 32 / 3"
proof -
  from assms have p: "0 < p" "p < 1" by simp_all
  have r: "0 < (1 - p) / p"
    by (rule divide_pos_pos) (use p in simp_all)
  have "ln 33334 < ln (exp (32 / 3 :: real))"
    using exp_third_power by (subst ln_less_cancel_iff) simp_all
  then have big: "ln (33334 :: real) < 32 / 3" by simp
  have "(1 - p) / p \<le> 33334" using assms p by (simp add: field_simps)
  then have "ln ((1 - p) / p) \<le> ln 33334" using r by simp
  with big have up: "ln ((1 - p) / p) < 32 / 3" by linarith
  have "1 / 33334 \<le> (1 - p) / p" using assms p by (simp add: field_simps)
  then have "ln (1 / 33334) \<le> ln ((1 - p) / p)" using r by simp
  moreover have "ln (1 / 33334 :: real) = - ln 33334"
    using ln_inverse [of "33334 :: real"] by (simp add: inverse_eq_divide)
  ultimately have "- (32 / 3) < ln ((1 - p) / p)" using big by linarith
  with up show ?thesis by linarith
qed

lemma unit_double_interval:
  fixes p :: real
  assumes "3 / 100000 \<le> p" "p \<le> 99997 / 100000"
  shows "unit_double p"
proof -
  have "(1 :: real) / 2 ^ 1022 \<le> 3 / 100000" by simp
  moreover have "(99997 :: real) / 100000 \<le> 1 - 1 / 2 ^ 53" by simp
  ultimately show ?thesis using assms unfolding unit_double_def by linarith
qed

subsection \<open>Bounds on the exponential\<close>

lemma exp_Taylor_bounds:
  fixes y :: real
  assumes "0 \<le> y" "y \<le> 1"
  shows "(\<Sum>m<n. y ^ m / fact m) \<le> exp y"
    and "exp y \<le> (\<Sum>m<n. y ^ m / fact m) + 3 * y ^ n / fact n"
proof -
  from Maclaurin_exp_le [of y n] obtain t where
    t: "\<bar>t\<bar> \<le> \<bar>y\<bar>" "exp y = (\<Sum>m<n. y ^ m / fact m) + exp t / fact n * y ^ n"
    by blast
  have yn: "0 \<le> y ^ n / fact n" using assms(1) by simp
  have "0 \<le> exp t / fact n * y ^ n"
    using assms(1) by simp
  with t(2) show "(\<Sum>m<n. y ^ m / fact m) \<le> exp y" by linarith
  have "t \<le> 1" using t(1) assms by linarith
  then have "exp t \<le> exp 1" by simp
  also have "exp (1::real) \<le> 3" by (rule exp_le)
  finally have "exp t * (y ^ n / fact n) \<le> 3 * (y ^ n / fact n)"
    using yn by (intro mult_right_mono)
  with t(2) show "exp y \<le> (\<Sum>m<n. y ^ m / fact m) + 3 * y ^ n / fact n"
    by (simp add: field_simps)
qed

lemma exp_127_12:
  "1000000000 / 25335 - 1 \<le> exp (127 / 12 :: real)"
  "exp (127 / 12 :: real) \<le> 1000000000 / 25334 - 1"
proof -
  have e: "exp (127 / 12 :: real) = exp (127 / 192) ^ 16"
    using exp_of_nat_mult [of 16 "127 / 192 :: real"] by simp
  have "(193761596 / 100000000 :: real) \<le> (\<Sum>m<12. (127 / 192) ^ m / fact m)"
    by (simp add: eval_nat_numeral)
  also have "\<dots> \<le> exp (127 / 192)"
    by (rule exp_Taylor_bounds) simp_all
  finally have "(193761596 / 100000000 :: real) ^ 16 \<le> exp (127 / 192) ^ 16"
    by (intro power_mono) simp_all
  moreover have "1000000000 / 25335 - 1 \<le> (193761596 / 100000000 :: real) ^ 16"
    by (simp add: power_divide)
  ultimately show "1000000000 / 25335 - 1 \<le> exp (127 / 12 :: real)"
    unfolding e by linarith
  have "exp (127 / 192 :: real)
          \<le> (\<Sum>m<12. (127 / 192) ^ m / fact m) + 3 * (127 / 192) ^ 12 / fact 12"
    by (rule exp_Taylor_bounds) simp_all
  also have "\<dots> \<le> 193761597 / 100000000"
    by (simp add: eval_nat_numeral)
  finally have "exp (127 / 192 :: real) ^ 16 \<le> (193761597 / 100000000) ^ 16"
    by (intro power_mono) simp_all
  moreover have "(193761597 / 100000000 :: real) ^ 16 \<le> 1000000000 / 25334 - 1"
    by (simp add: power_divide)
  ultimately show "exp (127 / 12 :: real) \<le> 1000000000 / 25334 - 1"
    unfolding e by linarith
qed

lemma exp_32767_1024:
  "100000000000000000000 / 1267655 - 1 \<le> exp (32767 / 1024 :: real)"
  "exp (32767 / 1024 :: real) \<le> 100000000000000000000 / 1267645 - 1"
proof -
  have e: "exp (32767 / 1024 :: real) = exp (32767 / 32768) ^ 32"
    using exp_of_nat_mult [of 32 "32767 / 32768 :: real"] by simp
  have "(271819887 / 100000000 :: real) \<le> (\<Sum>m<14. (32767 / 32768) ^ m / fact m)"
    by (simp add: eval_nat_numeral)
  also have "\<dots> \<le> exp (32767 / 32768)"
    by (rule exp_Taylor_bounds) simp_all
  finally have "(271819887 / 100000000 :: real) ^ 32 \<le> exp (32767 / 32768) ^ 32"
    by (intro power_mono) simp_all
  moreover have "100000000000000000000 / 1267655 - 1 \<le> (271819887 / 100000000 :: real) ^ 32"
    by (simp add: power_divide)
  ultimately show "100000000000000000000 / 1267655 - 1 \<le> exp (32767 / 1024 :: real)"
    unfolding e by linarith
  have "exp (32767 / 32768 :: real)
          \<le> (\<Sum>m<14. (32767 / 32768) ^ m / fact m) + 3 * (32767 / 32768) ^ 14 / fact 14"
    by (rule exp_Taylor_bounds) simp_all
  also have "\<dots> \<le> 271819888 / 100000000"
    by (simp add: eval_nat_numeral)
  finally have "exp (32767 / 32768 :: real) ^ 32 \<le> (271819888 / 100000000) ^ 32"
    by (intro power_mono) simp_all
  moreover have "(271819888 / 100000000 :: real) ^ 32 \<le> 100000000000000000000 / 1267645 - 1"
    by (simp add: power_divide)
  ultimately show "exp (32767 / 1024 :: real) \<le> 100000000000000000000 / 1267645 - 1"
    unfolding e by linarith
qed

subsection \<open>The decoders\<close>

lemma DF8_mono: "c \<le> d \<Longrightarrow> DF8 c \<le> DF8 d"
  unfolding DF8_logistic by (rule logistic_mono) simp

lemma DF16_mono: "c \<le> d \<Longrightarrow> DF16 c \<le> DF16 d"
  unfolding DF16_logistic by (rule logistic_mono) simp

lemma DF16_open: "0 < DF16 d \<and> DF16 d < 1"
proof -
  have "0 < exp (real_of_int d / - 1024)" by simp
  then show ?thesis unfolding DF16_def by (simp add: add_pos_pos)
qed

lemma DF8_least:
  "25334 / 1000000000 \<le> DF8 (- 127)" "DF8 (- 127) \<le> 25335 / 1000000000"
proof -
  have d: "DF8 (- 127) = 1 / (1 + exp (127 / 12))"
    by (simp add: DF8_def)
  have pos: "0 < 1 + exp (127 / 12 :: real)"
    by (simp add: add_pos_pos)
  have "1 + exp (127 / 12 :: real) \<le> 1000000000 / 25334"
    using exp_127_12(2) by linarith
  then have "1 / (1000000000 / 25334) \<le> 1 / (1 + exp (127 / 12 :: real))"
    using pos by (intro divide_left_mono) simp_all
  then show "25334 / 1000000000 \<le> DF8 (- 127)"
    unfolding d by simp
  have "1000000000 / 25335 \<le> 1 + exp (127 / 12 :: real)"
    using exp_127_12(1) by linarith
  then have "1 / (1 + exp (127 / 12 :: real)) \<le> 1 / (1000000000 / 25335)"
    by (intro divide_left_mono) simp_all
  then show "DF8 (- 127) \<le> 25335 / 1000000000"
    unfolding d by simp
qed

lemma DF16_least:
  "1267645 / 100000000000000000000 \<le> DF16 (- 32767)"
  "DF16 (- 32767) \<le> 1267655 / 100000000000000000000"
proof -
  have d: "DF16 (- 32767) = 1 / (1 + exp (32767 / 1024))"
    by (simp add: DF16_def)
  have pos: "0 < 1 + exp (32767 / 1024 :: real)"
    by (simp add: add_pos_pos)
  have "1 + exp (32767 / 1024 :: real) \<le> 100000000000000000000 / 1267645"
    using exp_32767_1024(2) by linarith
  then have "1 / (100000000000000000000 / 1267645) \<le> 1 / (1 + exp (32767 / 1024 :: real))"
    using pos by (intro divide_left_mono) simp_all
  then show "1267645 / 100000000000000000000 \<le> DF16 (- 32767)"
    unfolding d by simp
  have "100000000000000000000 / 1267655 \<le> 1 + exp (32767 / 1024 :: real)"
    using exp_32767_1024(1) by linarith
  then have "1 / (1 + exp (32767 / 1024 :: real)) \<le> 1 / (100000000000000000000 / 1267655)"
    by (intro divide_left_mono) simp_all
  then show "DF16 (- 32767) \<le> 1267655 / 100000000000000000000"
    unfolding d by simp
qed

subsection \<open>Two inputs just above one half\<close>

lemma ef8_near_half: "ef8 (Fin (5205 / 10000)) = Some 0"
proof -
  have u: "unit_double (5205 / 10000)"
    by (rule unit_double_interval) simp_all
  from ef8_Fin [OF u] obtain w where
    w: "ef8 (Fin (5205 / 10000)) = Some w"
       "sint w = max (- 127) (min 127 (trunc (- 12 * ln ((1 - 5205 / 10000) / (5205 / 10000)))))"
    by blast
  have r: "(1 - 5205 / 10000) / (5205 / 10000) = (4795 / 5205 :: real)" by simp
  have "(313 / 288 :: real) \<le> exp (1 / 12)"
    using exp_lower_Taylor_quadratic [of "1 / 12 :: real"] by (simp add: power2_eq_square)
  then have "inverse (exp (1 / 12 :: real)) \<le> inverse (313 / 288)"
    by (intro le_imp_inverse_le) simp_all
  then have "exp (- (1 / 12) :: real) < 4795 / 5205"
    by (simp add: exp_minus)
  then have "ln (exp (- (1 / 12) :: real)) < ln (4795 / 5205)"
    by (subst ln_less_cancel_iff) simp_all
  then have lo: "- (1 / 12) < ln (4795 / 5205 :: real)" by simp
  have hi: "ln (4795 / 5205 :: real) \<le> 0"
    using ln_le_minus_one [of "4795 / 5205 :: real"] by simp
  have "trunc (- 12 * ln (4795 / 5205 :: real)) = 0"
    by (rule trunc_zero) (use lo hi in linarith)+
  then have "sint w = 0" unfolding w r by simp
  then have "w = 0" by (simp add: signed_eq_0_iff)
  with w(1) show ?thesis by simp
qed

lemma ef16_near_half: "ef16 (Fin (500242 / 1000000)) = Some 0"
proof -
  have u: "unit_double (500242 / 1000000)"
    by (rule unit_double_interval) simp_all
  from ef16_Fin [OF u] obtain w where
    w: "ef16 (Fin (500242 / 1000000)) = Some w"
       "sint w = max (- 32767) (min 32767
          (trunc (- 1024 * ln ((1 - 500242 / 1000000) / (500242 / 1000000)))))"
    by blast
  have r: "(1 - 500242 / 1000000) / (500242 / 1000000) = (499758 / 500242 :: real)" by simp
  have "(1025 / 1024 :: real) \<le> exp (1 / 1024)"
    using exp_ge_add_one_self [of "1 / 1024 :: real"] by simp
  then have "inverse (exp (1 / 1024 :: real)) \<le> inverse (1025 / 1024)"
    by (intro le_imp_inverse_le) simp_all
  then have "exp (- (1 / 1024) :: real) < 499758 / 500242"
    by (simp add: exp_minus)
  then have "ln (exp (- (1 / 1024) :: real)) < ln (499758 / 500242)"
    by (subst ln_less_cancel_iff) simp_all
  then have lo: "- (1 / 1024) < ln (499758 / 500242 :: real)" by simp
  have hi: "ln (499758 / 500242 :: real) \<le> 0"
    using ln_le_minus_one [of "499758 / 500242 :: real"] by simp
  have "trunc (- 1024 * ln (499758 / 500242 :: real)) = 0"
    by (rule trunc_zero) (use lo hi in linarith)+
  then have "sint w = 0" unfolding w r by simp
  then have "w = 0" by (simp add: signed_eq_0_iff)
  with w(1) show ?thesis by simp
qed

section \<open>Properties of the validation\<close>

lemma check_simps:
  "cur (check c d st) = cur st"
  "stop (check c d st) = (c (cur st) \<or> stop st)"
  "e \<in> set (trace (check c d st)) \<longleftrightarrow> (c (cur st) \<and> e = Stderr d) \<or> e \<in> set (trace st)"
  by (auto simp add: check_def complain_def)

lemma analyze_range_step_cur:
  "cur (analyze_range_step env st) =
     (cur st)\<lparr>analyze_range := analyze_range (cur (analyze_range_step env st))\<rparr>"
  by (simp add: analyze_range_step_def complain_def Let_def split: prod.splits option.splits)

lemma analyze_range_step_stop:
  "stop (analyze_range_step env st) \<longleftrightarrow>
     (analyze_str (cur st) \<noteq> '''' \<and> CHR ''-'' \<notin> set (analyze_str (cur st))) \<or> stop st"
  by (auto simp add: analyze_range_step_def complain_def Let_def strsep_def split: prod.splits option.splits)

lemma analyze_range_step_trace:
  "e \<in> set (trace (analyze_range_step env st)) \<longleftrightarrow>
     (e = Stderr InvalidAnalyzeRange \<and> analyze_str (cur st) \<noteq> '''' \<and> CHR ''-'' \<notin> set (analyze_str (cur st)))
     \<or> (\<exists>lo hi. e = Stderr (AnalyzeNotice lo hi) \<and> analyze_str (cur st) \<noteq> '''' \<and> CHR ''-'' \<in> set (analyze_str (cur st))
          \<and> analyze_range (cur (analyze_range_step env st)) = (lo, hi))
     \<or> e \<in> set (trace st)"
  by (auto simp add: analyze_range_step_def complain_def Let_def strsep_def split: prod.splits option.splits)

lemma analyze_range_step_fields:
  "qvcf_fname (cur (analyze_range_step env st)) = qvcf_fname (cur st)"
  "rvcf_fname (cur (analyze_range_step env st)) = rvcf_fname (cur st)"
  "genetic_fname (cur (analyze_range_step env st)) = genetic_fname (cur st)"
  "class_fname (cur (analyze_range_step env st)) = class_fname (cur st)"
  "output_basename (cur (analyze_range_step env st)) = output_basename (cur st)"
  "maximum_missing_data_freq (cur (analyze_range_step env st)) = maximum_missing_data_freq (cur st)"
  "n_generations (cur (analyze_range_step env st)) = n_generations (cur st)"
  "rf_window_size (cur (analyze_range_step env st)) = rf_window_size (cur st)"
  "crf_spacing (cur (analyze_range_step env st)) = crf_spacing (cur st)"
  "generations (cur (analyze_range_step env st)) = generations (cur st)"
  "n_trees (cur (analyze_range_step env st)) = n_trees (cur st)"
  "reanalyze_reference (cur (analyze_range_step env st)) = reanalyze_reference (cur st)"
  "bootstrap_mode (cur (analyze_range_step env st)) = bootstrap_mode (cur st)"
  "em_iterations (cur (analyze_range_step env st)) = em_iterations (cur st)"
  "minimum_snps (cur (analyze_range_step env st)) = minimum_snps (cur st)"
  "analyze_str (cur (analyze_range_step env st)) = analyze_str (cur st)"
  "n_threads (cur (analyze_range_step env st)) = n_threads (cur st)"
  "chromosome (cur (analyze_range_step env st)) = chromosome (cur st)"
  "random_seed_str (cur (analyze_range_step env st)) = random_seed_str (cur st)"
  "random_seed (cur (analyze_range_step env st)) = random_seed (cur st)"
  by (subst analyze_range_step_cur, simp)+

lemma n_threads_step_simps:
  "cur (n_threads_step st) = (cur st)\<lparr>n_threads := max 1 (n_threads (cur st))\<rparr>"
  "stop (n_threads_step st) = stop st"
  "trace (n_threads_step st) = trace st"
  by (simp_all add: n_threads_step_def max_def)

lemma random_seed_step_simps:
  "cur (random_seed_step env st) =
     (cur st)\<lparr>random_seed :=
        (if random_seed_str (cur st) = ''clock''
         then Some (signed_take_bit 31 (time_now env))
         else to_int (strtod env (random_seed_str (cur st))))\<rparr>"
  "stop (random_seed_step env st) = stop st"
  "e \<in> set (trace (random_seed_step env st)) \<longleftrightarrow>
     e = Srand (if random_seed_str (cur st) = ''clock''
         then Some (signed_take_bit 31 (time_now env))
         else to_int (strtod env (random_seed_str (cur st)))) \<or> e \<in> set (trace st)"
  by (auto simp add: random_seed_step_def Let_def)

lemmas step_simps = check_simps analyze_range_step_fields analyze_range_step_stop
  analyze_range_step_trace n_threads_step_simps random_seed_step_simps

lemma verify_options_exit_iff:
  "snd (verify_options env opts) = Exit (- 1) \<longleftrightarrow>
     qvcf_fname opts = '''' \<or> rvcf_fname opts = '''' \<or> genetic_fname opts = '''' \<or>
     class_fname opts = '''' \<or> output_basename opts = '''' \<or>
     dless (maximum_missing_data_freq opts) (Fin 0) \<or>
     dless (Fin 1) (maximum_missing_data_freq opts) \<or>
     rf_window_size opts \<le> 0 \<or> crf_spacing opts \<le> 0 \<or> n_generations opts < 0 \<or>
     n_trees opts < 10 \<or> bootstrap_mode opts < 0 \<or> N_RF_BOOTSTRAP env \<le> bootstrap_mode opts \<or>
     (analyze_str opts \<noteq> '''' \<and> CHR ''-'' \<notin> set (analyze_str opts)) \<or>
     chromosome opts = ''''"
  unfolding verify_options_def Let_def
  by (simp add: step_simps)

lemma verify_options_outcome:
  "snd (verify_options env opts) = Exit (- 1) \<or> (\<exists>opts'. snd (verify_options env opts) = Return opts')"
  unfolding verify_options_def Let_def by simp

lemma verify_options_Return:
  assumes "snd (verify_options env opts) = Return opts'"
  shows "bootstrap_mode opts' = bootstrap_mode opts"
    and "n_threads opts' = (if n_threads opts < 1 then 1 else n_threads opts)"
    and "random_seed opts' =
           (if random_seed_str opts = ''clock'' then Some (signed_take_bit 31 (time_now env))
            else to_int (strtod env (random_seed_str opts)))"
  using assms unfolding verify_options_def Let_def
  by (auto simp add: step_simps split: if_splits)

lemma verify_options_diag:
  "Stderr NoQueryFile \<in> set (fst (verify_options env opts)) \<longleftrightarrow>
     qvcf_fname opts = ''''"
  "Stderr NoReferenceFile \<in> set (fst (verify_options env opts)) \<longleftrightarrow>
     rvcf_fname opts = ''''"
  "Stderr NoGeneticMap \<in> set (fst (verify_options env opts)) \<longleftrightarrow>
     genetic_fname opts = ''''"
  "Stderr NoSampleMap \<in> set (fst (verify_options env opts)) \<longleftrightarrow>
     class_fname opts = ''''"
  "Stderr NoOutputBasename \<in> set (fst (verify_options env opts)) \<longleftrightarrow>
     output_basename opts = ''''"
  "Stderr MaxMissingRange \<in> set (fst (verify_options env opts)) \<longleftrightarrow>
     dless (maximum_missing_data_freq opts) (Fin 0) \<or>
       dless (Fin 1) (maximum_missing_data_freq opts)"
  "Stderr RfWindowSize \<in> set (fst (verify_options env opts)) \<longleftrightarrow>
     rf_window_size opts \<le> 0"
  "Stderr CrfSpacing \<in> set (fst (verify_options env opts)) \<longleftrightarrow>
     crf_spacing opts \<le> 0"
  "Stderr NGenerations \<in> set (fst (verify_options env opts)) \<longleftrightarrow>
     n_generations opts < 0"
  "Stderr TooFewTrees \<in> set (fst (verify_options env opts)) \<longleftrightarrow>
     n_trees opts < 10"
  "Stderr BootstrapRange \<in> set (fst (verify_options env opts)) \<longleftrightarrow>
     bootstrap_mode opts < 0 \<or> N_RF_BOOTSTRAP env \<le> bootstrap_mode opts"
  "Stderr InvalidAnalyzeRange \<in> set (fst (verify_options env opts)) \<longleftrightarrow>
     analyze_str opts \<noteq> '''' \<and> CHR ''-'' \<notin> set (analyze_str opts)"
  "Stderr NoChromosome \<in> set (fst (verify_options env opts)) \<longleftrightarrow>
     chromosome opts = ''''"
  "Stderr CorrectErrors \<in> set (fst (verify_options env opts)) \<longleftrightarrow>
     snd (verify_options env opts) = Exit (- 1)"
  unfolding verify_options_def Let_def
  by (simp_all add: step_simps)

lemma verify_options_events:
  "e \<in> set (fst (verify_options env opts)) \<Longrightarrow> (\<exists>d. e = Stderr d) \<or> (\<exists>s. e = Srand s)"
  unfolding verify_options_def Let_def
  by (cases e) (simp_all add: step_simps split: if_splits)

lemma verify_options_srand:
  "Srand s \<in> set (fst (verify_options env opts)) \<longleftrightarrow>
     s = (if random_seed_str opts = ''clock''
          then Some (signed_take_bit 31 (time_now env))
          else to_int (strtod env (random_seed_str opts)))"
  unfolding verify_options_def Let_def
  by (simp add: step_simps)

text \<open>
  The default seed string \<open>0xDEADBEEF\<close> denotes 3735928559, above \<open>INT_MAX\<close>: if
  \<open>strtod\<close> reads it so, its conversion to \<open>int\<close> has no defined value.
\<close>

lemma default_seed_out_of_range: "to_int (Fin 3735928559) = None"
  by (simp add: trunc_def INT_MIN_def INT_MAX_def)

lemma main_exits:
  assumes "cmdline_getoptions env (init_options env) = Return opts"
    and "snd (verify_options env opts) = Exit status"
  shows "main env = (fst (verify_options env opts), Exit status)"
  using assms by (cases "verify_options env opts") (simp add: main_def)

lemma main_proceeds:
  assumes "cmdline_getoptions env (init_options env) = Return opts"
    and "snd (verify_options env opts) = Return opts'"
  shows "main env =
    (fst (verify_options env opts) @ [Stderr Blank, LoadInput, RandomForest, Crf, MspOutput, FbOutput,
                       FbStayInStateOutput, FreeInput], Return 0)"
  using assms by (cases "verify_options env opts") (simp add: main_def)









section \<open>Claims about the codec\<close>

text \<open>
  Claim C1, as amended. For every probability \<open>p\<close> from 0.00003 to 0.99997 the encoders
  return a code, and decoding it gives \<open>p\<close> back with an error below \<open>1 / 48\<close> (about
  0.0208) for the 8-bit codec and below \<open>1 / 4096\<close> (about 0.000244) for the 16-bit
  codec. The encoder truncates the scaled log-odds, so the code is less than one unit away
  from it; the logistic function has slope at most \<open>1 / 4\<close>; the units are \<open>1 / 12\<close>
  and \<open>1 / 1024\<close>.
\<close>

theorem codec_roundtrip_error:
  fixes p :: real
  assumes "3 / 100000 \<le> p" and "p \<le> 99997 / 100000"
  shows "(\<exists>c. ef8 (Fin p) = Some c \<and> \<bar>DF8 (sint c) - p\<bar> < 1 / 48) \<and>
         (\<exists>c. ef16 (Fin p) = Some c \<and> \<bar>DF16 (sint c) - p\<bar> < 1 / 4096)"
proof -
  from assms have p: "0 < p" "p < 1" by simp_all
  have u: "unit_double p" using assms by (rule unit_double_interval)
  have L: "\<bar>ln ((1 - p) / p)\<bar> < 32 / 3" using assms by (rule log_odds_small)
  from ef8_Fin [OF u] obtain a where
    a: "ef8 (Fin p) = Some a" "sint a = max (- 127) (min 127 (trunc (- 12 * ln ((1 - p) / p))))"
    by blast
  from L have "\<bar>- 12 * ln ((1 - p) / p)\<bar> < real_of_int 128" by simp
  from trunc_bounds [OF this] have "sint a = trunc (- 12 * ln ((1 - p) / p))"
    unfolding a by linarith
  then have 8: "\<bar>DF8 (sint a) - p\<bar> < 1 / 48"
    using roundtrip_error [of 12 p] p by (simp add: DF8_logistic)
  from ef16_Fin [OF u] obtain b where
    b: "ef16 (Fin p) = Some b"
       "sint b = max (- 32767) (min 32767 (trunc (- 1024 * ln ((1 - p) / p))))"
    by blast
  from L have "\<bar>- 1024 * ln ((1 - p) / p)\<bar> < real_of_int 32768" by simp
  from trunc_bounds [OF this] have "sint b = trunc (- 1024 * ln ((1 - p) / p))"
    unfolding b by linarith
  then have 16: "\<bar>DF16 (sint b) - p\<bar> < 1 / 4096"
    using roundtrip_error [of 1024 p] p by (simp add: DF16_logistic)
  from a(1) b(1) 8 16 show ?thesis by blast
qed

theorem codec_roundtrip_error_witness:
  "(3 :: real) / 100000 \<le> 1 / 2 \<and> (1 :: real) / 2 \<le> 99997 / 100000 \<and>
   (\<exists>c. ef8 (Fin (1 / 2)) = Some c \<and> \<bar>DF8 (sint c) - 1 / 2\<bar> < 1 / 48) \<and>
   (\<exists>c. ef16 (Fin (1 / 2)) = Some c \<and> \<bar>DF16 (sint c) - 1 / 2\<bar> < 1 / 4096)"
  using codec_roundtrip_error [of "1 / 2"] by simp

text \<open>
  Claim C1 as stated asks for errors of at most 0.02 and 0.00024. Both bounds fail just
  above one half, where the log-odds is still truncated to the code 0, which decodes to
  0.5: at \<open>p = 0.5205\<close> the 8-bit error is 0.0205, and at \<open>p = 0.500242\<close> the 16-bit
  error is 0.000242.
\<close>

theorem codec_roundtrip_counterexample:
  "ef8 (Fin (5205 / 10000)) = Some 0 \<and>
   \<not> \<bar>DF8 (sint (0 :: 8 word)) - 5205 / 10000\<bar> \<le> 2 / 100 \<and>
   ef16 (Fin (500242 / 1000000)) = Some 0 \<and>
   \<not> \<bar>DF16 (sint (0 :: 16 word)) - 500242 / 1000000\<bar> \<le> 24 / 100000"
  using ef8_near_half ef16_near_half by (simp add: DF8_def DF16_def)

text \<open>
  Claim C2 says that the encoders are total on the closed interval from 0 to 1, with
  \<open>ef8(0) = -127\<close>, \<open>ef8(1) = 127\<close>, \<open>ef16(0) = -32767\<close> and \<open>ef16(1) = 32767\<close>. The code
  clamps after the conversion to \<open>int\<close>, not before: at \<open>p = 0\<close> the value converted is
  minus infinity and at \<open>p = 1\<close> it is plus infinity, and C defines no result for
  either conversion, so no result of the encoders is defined there.
\<close>

theorem encoder_extremes_undefined:
  "dmul (Fin (- 12)) (dlog (ddiv (dsub (Fin 1) (Fin 0)) (Fin 0))) = MInf \<and>
   dmul (Fin (- 12)) (dlog (ddiv (dsub (Fin 1) (Fin 1)) (Fin 1))) = PInf \<and>
   ef8 (Fin 0) = None \<and> ef8 (Fin 1) = None \<and>
   ef16 (Fin 0) = None \<and> ef16 (Fin 1) = None"
  by (simp add: ef8_def ef16_def dsub_def overflow_def signed_inf_def)




text \<open>
  Claim C4. Representable range of the decoders. For every code \<open>c\<close> from -127 to 127,
  \<open>DF8(c)\<close> lies between \<open>DF8(-127)\<close> and \<open>DF8(127)\<close>, and so between 0.000025334 and
  0.9999747: \<open>DF8(-127)\<close> is 0.000025334 cut to nine decimals, \<open>DF8(127)\<close> is 0.9999746
  cut to seven. For every code \<open>d\<close> from -32767 to 32767, \<open>DF16(d)\<close> lies strictly
  between 0 and 1 and is least at -32767, where it is 1.26765e-14 to six significant
  digits.
\<close>

theorem decoder_range:
  "(- 127 \<le> c \<and> c \<le> 127 \<longrightarrow>
      DF8 (- 127) \<le> DF8 c \<and> DF8 c \<le> DF8 127 \<and>
      25334 / 1000000000 \<le> DF8 c \<and> DF8 c \<le> 9999747 / 10000000) \<and>
   25334 / 1000000000 \<le> DF8 (- 127) \<and> DF8 (- 127) \<le> 25335 / 1000000000 \<and>
   9999746 / 10000000 \<le> DF8 127 \<and> DF8 127 \<le> 9999747 / 10000000 \<and>
   (- 32767 \<le> d \<and> d \<le> 32767 \<longrightarrow>
      0 < DF16 d \<and> DF16 d < 1 \<and> DF16 (- 32767) \<le> DF16 d) \<and>
   \<bar>DF16 (- 32767) - 126765 / 10000000000000000000\<bar> \<le> 5 / 100000000000000000000"
proof -
  have top: "DF8 127 = 1 - DF8 (- 127)"
    using DF8_flip [of "- 127"] by simp
  have 1: "9999746 / 10000000 \<le> DF8 127" "DF8 127 \<le> 9999747 / 10000000"
    using DF8_least unfolding top by linarith+
  have 2: "DF8 (- 127) \<le> DF8 c \<and> DF8 c \<le> DF8 127 \<and>
      25334 / 1000000000 \<le> DF8 c \<and> DF8 c \<le> 9999747 / 10000000"
    if "- 127 \<le> c \<and> c \<le> 127"
    using that DF8_mono [of "- 127" c] DF8_mono [of c 127] DF8_least(1) 1(2) by linarith
  have 3: "0 < DF16 d \<and> DF16 d < 1 \<and> DF16 (- 32767) \<le> DF16 d"
    if "- 32767 \<le> d \<and> d \<le> 32767"
    using that DF16_mono [of "- 32767" d] DF16_open [of d] by simp
  have 4: "\<bar>DF16 (- 32767) - 126765 / 10000000000000000000\<bar> \<le> 5 / 100000000000000000000"
    using DF16_least by linarith
  from 1 2 3 4 DF8_least show ?thesis by blast
qed

theorem decoder_range_witness:
  "(- 127 :: int) \<le> 0 \<and> (0 :: int) \<le> 127 \<and>
   DF8 (- 127) \<le> DF8 0 \<and> DF8 0 \<le> DF8 127 \<and>
   25334 / 1000000000 \<le> DF8 0 \<and> DF8 0 \<le> 9999747 / 10000000 \<and>
   (- 32767 :: int) \<le> 0 \<and> (0 :: int) \<le> 32767 \<and>
   0 < DF16 0 \<and> DF16 0 < 1 \<and> DF16 (- 32767) \<le> DF16 0"
  using decoder_range [of 0 0] by simp

section \<open>Claims about the validation of the options\<close>

text \<open>
  Claim C5, as amended. Configuration errors are fatal and come before all computation.
  Suppose the command line parser returns the option structure \<open>opts\<close>, and a required
  name (query VCF, reference VCF, genetic map, sample map, output basename, chromosome) is
  empty, or \<open>maximum_missing_data_freq\<close> compares below 0 or above 1, or
  \<open>rf_window_size \<le> 0\<close>, or \<open>crf_spacing \<le> 0\<close>, or \<open>n_generations < 0\<close>, or
  \<open>n_trees < 10\<close>, or \<open>bootstrap_mode\<close> is negative or at least \<open>N_RF_BOOTSTRAP\<close>, or
  the analyze range is not empty and has no separator \<open>-\<close>. Then \<open>main\<close> ends by
  \<open>exit(-1)\<close>; all it has done before is write to stderr and call \<open>srand\<close>, so neither
  \<open>load_input\<close> nor any inference step has run; and every check that is violated has
  written its message, not only the first.
\<close>

theorem configuration_errors_fatal:
  assumes parsed: "cmdline_getoptions env (init_options env) = Return opts"
    and bad:
      "qvcf_fname opts = '''' \<or> rvcf_fname opts = '''' \<or> genetic_fname opts = '''' \<or>
       class_fname opts = '''' \<or> output_basename opts = '''' \<or> chromosome opts = '''' \<or>
       dless (maximum_missing_data_freq opts) (Fin 0) \<or>
       dless (Fin 1) (maximum_missing_data_freq opts) \<or>
       rf_window_size opts \<le> 0 \<or> crf_spacing opts \<le> 0 \<or> n_generations opts < 0 \<or>
       n_trees opts < 10 \<or> bootstrap_mode opts < 0 \<or>
       N_RF_BOOTSTRAP env \<le> bootstrap_mode opts \<or>
       (analyze_str opts \<noteq> '''' \<and> CHR ''-'' \<notin> set (analyze_str opts))"
  shows
    "snd (main env) = Exit (- 1) \<and>
     (\<forall>e \<in> set (fst (main env)). (\<exists>d. e = Stderr d) \<or> (\<exists>s. e = Srand s)) \<and>
     (qvcf_fname opts = '''' \<longrightarrow> Stderr NoQueryFile \<in> set (fst (main env))) \<and>
     (rvcf_fname opts = '''' \<longrightarrow> Stderr NoReferenceFile \<in> set (fst (main env))) \<and>
     (genetic_fname opts = '''' \<longrightarrow> Stderr NoGeneticMap \<in> set (fst (main env))) \<and>
     (class_fname opts = '''' \<longrightarrow> Stderr NoSampleMap \<in> set (fst (main env))) \<and>
     (output_basename opts = '''' \<longrightarrow> Stderr NoOutputBasename \<in> set (fst (main env))) \<and>
     (chromosome opts = '''' \<longrightarrow> Stderr NoChromosome \<in> set (fst (main env))) \<and>
     (dless (maximum_missing_data_freq opts) (Fin 0) \<or>
      dless (Fin 1) (maximum_missing_data_freq opts)
        \<longrightarrow> Stderr MaxMissingRange \<in> set (fst (main env))) \<and>
     (rf_window_size opts \<le> 0 \<longrightarrow> Stderr RfWindowSize \<in> set (fst (main env))) \<and>
     (crf_spacing opts \<le> 0 \<longrightarrow> Stderr CrfSpacing \<in> set (fst (main env))) \<and>
     (n_generations opts < 0 \<longrightarrow> Stderr NGenerations \<in> set (fst (main env))) \<and>
     (n_trees opts < 10 \<longrightarrow> Stderr TooFewTrees \<in> set (fst (main env))) \<and>
     (bootstrap_mode opts < 0 \<or> N_RF_BOOTSTRAP env \<le> bootstrap_mode opts
        \<longrightarrow> Stderr BootstrapRange \<in> set (fst (main env))) \<and>
     (analyze_str opts \<noteq> '''' \<and> CHR ''-'' \<notin> set (analyze_str opts)
        \<longrightarrow> Stderr InvalidAnalyzeRange \<in> set (fst (main env)))"
proof -
  have "snd (verify_options env opts) = Exit (- 1)"
    using bad by (subst verify_options_exit_iff) blast
  then have m: "main env = (fst (verify_options env opts), Exit (- 1))"
    using parsed by (rule main_exits [rotated])
  have ev: "\<forall>e \<in> set (fst (main env)). (\<exists>d. e = Stderr d) \<or> (\<exists>s. e = Srand s)"
    unfolding m using verify_options_events by auto
  show ?thesis
    using ev by (simp add: m verify_options_diag)
qed

theorem configuration_errors_fatal_witness:
  "let env = \<lparr>N_RF_BOOTSTRAP = 3, nprocessors_conf = 4, cmdline_getoptions = Return,
                time_now = 0, strtod = (\<lambda>s. Fin 0), atof = (\<lambda>s. Fin 0)\<rparr>;
       opts = init_options env
   in cmdline_getoptions env (init_options env) = Return opts \<and>
      qvcf_fname opts = '''' \<and> rf_window_size opts \<le> 0 \<and>
      snd (main env) = Exit (- 1) \<and>
      Stderr NoQueryFile \<in> set (fst (main env)) \<and>
      Stderr RfWindowSize \<in> set (fst (main env))"
  using configuration_errors_fatal
    [of "\<lparr>N_RF_BOOTSTRAP = 3, nprocessors_conf = 4, cmdline_getoptions = Return,
                time_now = 0, strtod = (\<lambda>s. Fin 0), atof = (\<lambda>s. Fin 0)\<rparr>"
        "init_options \<lparr>N_RF_BOOTSTRAP = 3, nprocessors_conf = 4, cmdline_getoptions = Return,
                time_now = 0, strtod = (\<lambda>s. Fin 0), atof = (\<lambda>s. Fin 0)\<rparr>"]
  by (simp add: Let_def init_options_def trunc_def)

text \<open>
  Claim C5 as stated speaks of any malformed analyze range and of any
  \<open>maximum_missing_data_freq\<close> outside the interval from 0 to 1. The code tests the range
  only for a missing separator, and the frequency only by two comparisons, which are both
  false for a NaN. With the analyze range \<open>x-y\<close>, and likewise with a NaN frequency, all
  else being valid, \<open>main\<close> does not exit: it reaches \<open>load_input\<close> and returns 0.
\<close>

theorem configuration_errors_counterexample:
  "snd (main \<lparr>N_RF_BOOTSTRAP = 3, nprocessors_conf = 4,
       cmdline_getoptions = (\<lambda>init. Return (init\<lparr>qvcf_fname := ''q.vcf'',
         rvcf_fname := ''r.vcf'', genetic_fname := ''g.map'', class_fname := ''s.map'',
         output_basename := ''out'', rf_window_size := 1, crf_spacing := 1,
         analyze_str := ''x-y'', chromosome := ''1''\<rparr>)),
       time_now = 0, strtod = (\<lambda>s. Fin 0), atof = (\<lambda>s. Fin 0)\<rparr>) = Return 0 \<and>
   LoadInput \<in> set (fst (main \<lparr>N_RF_BOOTSTRAP = 3, nprocessors_conf = 4,
       cmdline_getoptions = (\<lambda>init. Return (init\<lparr>qvcf_fname := ''q.vcf'',
         rvcf_fname := ''r.vcf'', genetic_fname := ''g.map'', class_fname := ''s.map'',
         output_basename := ''out'', rf_window_size := 1, crf_spacing := 1,
         analyze_str := ''x-y'', chromosome := ''1''\<rparr>)),
       time_now = 0, strtod = (\<lambda>s. Fin 0), atof = (\<lambda>s. Fin 0)\<rparr>)) \<and>
   snd (main \<lparr>N_RF_BOOTSTRAP = 3, nprocessors_conf = 4,
       cmdline_getoptions = (\<lambda>init. Return (init\<lparr>qvcf_fname := ''q.vcf'',
         rvcf_fname := ''r.vcf'', genetic_fname := ''g.map'', class_fname := ''s.map'',
         output_basename := ''out'', maximum_missing_data_freq := NaN,
         rf_window_size := 1, crf_spacing := 1, chromosome := ''1''\<rparr>)),
       time_now = 0, strtod = (\<lambda>s. Fin 0), atof = (\<lambda>s. Fin 0)\<rparr>) = Return 0 \<and>
   LoadInput \<in> set (fst (main \<lparr>N_RF_BOOTSTRAP = 3, nprocessors_conf = 4,
       cmdline_getoptions = (\<lambda>init. Return (init\<lparr>qvcf_fname := ''q.vcf'',
         rvcf_fname := ''r.vcf'', genetic_fname := ''g.map'', class_fname := ''s.map'',
         output_basename := ''out'', maximum_missing_data_freq := NaN,
         rf_window_size := 1, crf_spacing := 1, chromosome := ''1''\<rparr>)),
       time_now = 0, strtod = (\<lambda>s. Fin 0), atof = (\<lambda>s. Fin 0)\<rparr>))"
proof -
  let ?P1 = "\<lambda>init. Return (init\<lparr>qvcf_fname := ''q.vcf'',
         rvcf_fname := ''r.vcf'', genetic_fname := ''g.map'', class_fname := ''s.map'',
         output_basename := ''out'', rf_window_size := 1, crf_spacing := 1,
         analyze_str := ''x-y'', chromosome := ''1''\<rparr>)"
  let ?E1 = "\<lparr>N_RF_BOOTSTRAP = 3, nprocessors_conf = 4, cmdline_getoptions = ?P1,
       time_now = 0, strtod = (\<lambda>s. Fin 0), atof = (\<lambda>s. Fin 0)\<rparr>"
  let ?O1 = "(init_options ?E1)\<lparr>qvcf_fname := ''q.vcf'',
         rvcf_fname := ''r.vcf'', genetic_fname := ''g.map'', class_fname := ''s.map'',
         output_basename := ''out'', rf_window_size := 1, crf_spacing := 1,
         analyze_str := ''x-y'', chromosome := ''1''\<rparr>"
  let ?P2 = "\<lambda>init. Return (init\<lparr>qvcf_fname := ''q.vcf'',
         rvcf_fname := ''r.vcf'', genetic_fname := ''g.map'', class_fname := ''s.map'',
         output_basename := ''out'', maximum_missing_data_freq := NaN,
         rf_window_size := 1, crf_spacing := 1, chromosome := ''1''\<rparr>)"
  let ?E2 = "\<lparr>N_RF_BOOTSTRAP = 3, nprocessors_conf = 4, cmdline_getoptions = ?P2,
       time_now = 0, strtod = (\<lambda>s. Fin 0), atof = (\<lambda>s. Fin 0)\<rparr>"
  let ?O2 = "(init_options ?E2)\<lparr>qvcf_fname := ''q.vcf'',
         rvcf_fname := ''r.vcf'', genetic_fname := ''g.map'', class_fname := ''s.map'',
         output_basename := ''out'', maximum_missing_data_freq := NaN,
         rf_window_size := 1, crf_spacing := 1, chromosome := ''1''\<rparr>"
  have p1: "cmdline_getoptions ?E1 (init_options ?E1) = Return ?O1" by simp
  have "snd (verify_options ?E1 ?O1) \<noteq> Exit (- 1)"
    by (simp add: verify_options_exit_iff init_options_def)
  then obtain r1 where r1: "snd (verify_options ?E1 ?O1) = Return r1"
    using verify_options_outcome [of ?E1 ?O1] by blast
  have m1: "snd (main ?E1) = Return 0 \<and> LoadInput \<in> set (fst (main ?E1))"
    by (subst main_proceeds [OF p1 r1])+ simp
  have p2: "cmdline_getoptions ?E2 (init_options ?E2) = Return ?O2" by simp
  have "snd (verify_options ?E2 ?O2) \<noteq> Exit (- 1)"
    by (simp add: verify_options_exit_iff init_options_def)
  then obtain r2 where r2: "snd (verify_options ?E2 ?O2) = Return r2"
    using verify_options_outcome [of ?E2 ?O2] by blast
  have m2: "snd (main ?E2) = Return 0 \<and> LoadInput \<in> set (fst (main ?E2))"
    by (subst main_proceeds [OF p2 r2])+ simp
  from m1 m2 show ?thesis by blast
qed

text \<open>
  Claim C6. The bootstrap mode is validated at startup: \<open>verify_options\<close> writes the
  bootstrap diagnostic exactly when \<open>bootstrap_mode < 0\<close> or
  \<open>bootstrap_mode \<ge> N_RF_BOOTSTRAP\<close>, and then it exits with status -1; so whenever
  \<open>verify_options\<close> returns, the option structure it leaves has \<open>bootstrap_mode\<close> in
  the closed range from 0 to \<open>N_RF_BOOTSTRAP - 1\<close>, and whenever \<open>main\<close> reaches
  \<open>load_input\<close>, the options it parsed have \<open>bootstrap_mode\<close> in that range.
\<close>

theorem bootstrap_mode_validated:
  "(Stderr BootstrapRange \<in> set (fst (verify_options env opts)) \<longleftrightarrow>
      bootstrap_mode opts < 0 \<or> N_RF_BOOTSTRAP env \<le> bootstrap_mode opts) \<and>
   (bootstrap_mode opts < 0 \<or> N_RF_BOOTSTRAP env \<le> bootstrap_mode opts \<longrightarrow>
      snd (verify_options env opts) = Exit (- 1)) \<and>
   (\<forall>opts'. snd (verify_options env opts) = Return opts' \<longrightarrow>
      0 \<le> bootstrap_mode opts' \<and> bootstrap_mode opts' \<le> N_RF_BOOTSTRAP env - 1) \<and>
   (cmdline_getoptions env (init_options env) = Return opts \<and>
    LoadInput \<in> set (fst (main env)) \<longrightarrow>
      0 \<le> bootstrap_mode opts \<and> bootstrap_mode opts \<le> N_RF_BOOTSTRAP env - 1)"
proof -
  have fires: "Stderr BootstrapRange \<in> set (fst (verify_options env opts)) \<longleftrightarrow>
      bootstrap_mode opts < 0 \<or> N_RF_BOOTSTRAP env \<le> bootstrap_mode opts"
    by (rule verify_options_diag)
  have fatal: "snd (verify_options env opts) = Exit (- 1)"
    if "bootstrap_mode opts < 0 \<or> N_RF_BOOTSTRAP env \<le> bootstrap_mode opts"
    using that by (subst verify_options_exit_iff) blast
  have kept: "0 \<le> bootstrap_mode opts' \<and> bootstrap_mode opts' \<le> N_RF_BOOTSTRAP env - 1"
    if r: "snd (verify_options env opts) = Return opts'" for opts'
  proof -
    from r have "snd (verify_options env opts) \<noteq> Exit (- 1)" by simp
    with fatal have "\<not> (bootstrap_mode opts < 0 \<or> N_RF_BOOTSTRAP env \<le> bootstrap_mode opts)"
      by blast
    moreover have "bootstrap_mode opts' = bootstrap_mode opts"
      using r by (rule verify_options_Return)
    ultimately show ?thesis by simp
  qed
  have run: "0 \<le> bootstrap_mode opts \<and> bootstrap_mode opts \<le> N_RF_BOOTSTRAP env - 1"
    if parsed: "cmdline_getoptions env (init_options env) = Return opts"
      and loaded: "LoadInput \<in> set (fst (main env))"
  proof -
    have "snd (verify_options env opts) \<noteq> Exit (- 1)"
    proof
      assume "snd (verify_options env opts) = Exit (- 1)"
      from main_exits [OF parsed this] loaded
      have "LoadInput \<in> set (fst (verify_options env opts))" by simp
      then show False by (auto dest: verify_options_events)
    qed
    with fatal have "\<not> (bootstrap_mode opts < 0 \<or> N_RF_BOOTSTRAP env \<le> bootstrap_mode opts)"
      by blast
    then show ?thesis by simp
  qed
  from fires fatal kept run show ?thesis by blast
qed

theorem bootstrap_mode_validated_witness:
  "let env = \<lparr>N_RF_BOOTSTRAP = 3, nprocessors_conf = 4,
                cmdline_getoptions = (\<lambda>init. Return (init\<lparr>qvcf_fname := ''q.vcf'',
                  rvcf_fname := ''r.vcf'', genetic_fname := ''g.map'', class_fname := ''s.map'',
                  output_basename := ''out'', rf_window_size := 1, crf_spacing := 1,
                  chromosome := ''1''\<rparr>)),
                time_now = 0, strtod = (\<lambda>s. Fin 0), atof = (\<lambda>s. Fin 0)\<rparr>;
       opts = (init_options env)\<lparr>qvcf_fname := ''q.vcf'', rvcf_fname := ''r.vcf'',
                genetic_fname := ''g.map'', class_fname := ''s.map'',
                output_basename := ''out'', rf_window_size := 1, crf_spacing := 1,
                chromosome := ''1''\<rparr>
   in cmdline_getoptions env (init_options env) = Return opts \<and>
      LoadInput \<in> set (fst (main env)) \<and>
      0 \<le> bootstrap_mode opts \<and> bootstrap_mode opts \<le> 2 \<and>
      (\<exists>opts'. snd (verify_options env opts) = Return opts' \<and>
         0 \<le> bootstrap_mode opts' \<and> bootstrap_mode opts' \<le> 2) \<and>
      Stderr BootstrapRange \<in> set (fst (verify_options env (opts\<lparr>bootstrap_mode := 3\<rparr>))) \<and>
      snd (verify_options env (opts\<lparr>bootstrap_mode := 3\<rparr>)) = Exit (- 1)"
proof -
  let ?env = "\<lparr>N_RF_BOOTSTRAP = 3, nprocessors_conf = 4,
                cmdline_getoptions = (\<lambda>init. Return (init\<lparr>qvcf_fname := ''q.vcf'',
                  rvcf_fname := ''r.vcf'', genetic_fname := ''g.map'', class_fname := ''s.map'',
                  output_basename := ''out'', rf_window_size := 1, crf_spacing := 1,
                  chromosome := ''1''\<rparr>)),
                time_now = 0, strtod = (\<lambda>s. Fin 0), atof = (\<lambda>s. Fin 0)\<rparr>"
  let ?opts = "(init_options ?env)\<lparr>qvcf_fname := ''q.vcf'', rvcf_fname := ''r.vcf'',
                genetic_fname := ''g.map'', class_fname := ''s.map'',
                output_basename := ''out'', rf_window_size := 1, crf_spacing := 1,
                chromosome := ''1''\<rparr>"
  have parsed: "cmdline_getoptions ?env (init_options ?env) = Return ?opts"
    by simp
  have "snd (verify_options ?env ?opts) \<noteq> Exit (- 1)"
    by (simp add: verify_options_exit_iff init_options_def)
  then obtain opts' where r: "snd (verify_options ?env ?opts) = Return opts'"
    using verify_options_outcome [of ?env ?opts] by blast
  have loaded: "LoadInput \<in> set (fst (main ?env))"
    by (subst main_proceeds [OF parsed r]) simp
  from parsed loaded bootstrap_mode_validated [where env = ?env and opts = ?opts]
  have 0: "0 \<le> bootstrap_mode ?opts \<and> bootstrap_mode ?opts \<le> 2" by simp
  from r bootstrap_mode_validated [where env = ?env and opts = ?opts]
  have "0 \<le> bootstrap_mode opts' \<and> bootstrap_mode opts' \<le> 2" by simp
  with r have 1: "\<exists>opts'. snd (verify_options ?env ?opts) = Return opts' \<and>
         0 \<le> bootstrap_mode opts' \<and> bootstrap_mode opts' \<le> 2" by blast
  have 2: "Stderr BootstrapRange \<in> set (fst (verify_options ?env (?opts\<lparr>bootstrap_mode := 3\<rparr>))) \<and>
      snd (verify_options ?env (?opts\<lparr>bootstrap_mode := 3\<rparr>)) = Exit (- 1)"
    using bootstrap_mode_validated [where env = ?env and opts = "?opts\<lparr>bootstrap_mode := 3\<rparr>"]
    by simp
  from parsed loaded 0 1 2 show ?thesis unfolding Let_def by blast
qed

text \<open>
  Claim C7 says that for every seed string other than \<open>clock\<close> the seed is a function of
  the string alone, parsed numerically with the hexadecimal form accepted. The code does
  choose between the clock and \<open>strtod\<close> by comparing the string with \<open>clock\<close>
  (\<open>verify_options_srand\<close>), but it stores the double that \<open>strtod\<close> returns into an
  \<open>int\<close>. The default string \<open>0xDEADBEEF\<close> denotes 3735928559, above \<open>INT_MAX\<close>:
  with \<open>strtod\<close> reading it so, and the options otherwise valid, the conversion has no
  defined value, \<open>srand\<close> is called with no defined seed, and \<open>verify_options\<close> returns
  with no defined \<open>random_seed\<close>.
\<close>

theorem default_seed_undefined:
  "random_seed_str (init_options \<lparr>N_RF_BOOTSTRAP = 3, nprocessors_conf = 4,
       cmdline_getoptions = Return, time_now = 0,
       strtod = (\<lambda>s. Fin 3735928559), atof = (\<lambda>s. Fin 0)\<rparr>) = ''0xDEADBEEF'' \<and>
   to_int (Fin 3735928559) = None \<and>
   Srand None \<in> set (fst (verify_options
     \<lparr>N_RF_BOOTSTRAP = 3, nprocessors_conf = 4, cmdline_getoptions = Return, time_now = 0,
       strtod = (\<lambda>s. Fin 3735928559), atof = (\<lambda>s. Fin 0)\<rparr>
     ((init_options \<lparr>N_RF_BOOTSTRAP = 3, nprocessors_conf = 4,
         cmdline_getoptions = Return, time_now = 0,
         strtod = (\<lambda>s. Fin 3735928559), atof = (\<lambda>s. Fin 0)\<rparr>)
       \<lparr>qvcf_fname := ''q.vcf'', rvcf_fname := ''r.vcf'', genetic_fname := ''g.map'',
          class_fname := ''s.map'', output_basename := ''out'', rf_window_size := 1,
          crf_spacing := 1, chromosome := ''1''\<rparr>))) \<and>
   (case snd (verify_options
     \<lparr>N_RF_BOOTSTRAP = 3, nprocessors_conf = 4, cmdline_getoptions = Return, time_now = 0,
       strtod = (\<lambda>s. Fin 3735928559), atof = (\<lambda>s. Fin 0)\<rparr>
     ((init_options \<lparr>N_RF_BOOTSTRAP = 3, nprocessors_conf = 4,
         cmdline_getoptions = Return, time_now = 0,
         strtod = (\<lambda>s. Fin 3735928559), atof = (\<lambda>s. Fin 0)\<rparr>)
       \<lparr>qvcf_fname := ''q.vcf'', rvcf_fname := ''r.vcf'', genetic_fname := ''g.map'',
          class_fname := ''s.map'', output_basename := ''out'', rf_window_size := 1,
          crf_spacing := 1, chromosome := ''1''\<rparr>)) of
      Exit status \<Rightarrow> False
    | Return opts' \<Rightarrow> random_seed opts' = None)"
proof -
  let ?E = "\<lparr>N_RF_BOOTSTRAP = 3, nprocessors_conf = 4, cmdline_getoptions = Return,
       time_now = 0, strtod = (\<lambda>s. Fin 3735928559), atof = (\<lambda>s. Fin 0)\<rparr>"
  let ?O = "(init_options ?E)
       \<lparr>qvcf_fname := ''q.vcf'', rvcf_fname := ''r.vcf'', genetic_fname := ''g.map'',
          class_fname := ''s.map'', output_basename := ''out'', rf_window_size := 1,
          crf_spacing := 1, chromosome := ''1''\<rparr>"
  have s: "random_seed_str ?O = ''0xDEADBEEF''"
    by (simp add: init_options_def)
  have 1: "random_seed_str (init_options ?E) = ''0xDEADBEEF''"
    by (simp add: init_options_def)
  have 2: "to_int (Fin 3735928559) = None"
    by (rule default_seed_out_of_range)
  have 3: "Srand None \<in> set (fst (verify_options ?E ?O))"
    unfolding verify_options_srand s using 2 by simp
  have "snd (verify_options ?E ?O) \<noteq> Exit (- 1)"
    by (simp add: verify_options_exit_iff init_options_def)
  then obtain r where r: "snd (verify_options ?E ?O) = Return r"
    using verify_options_outcome [of ?E ?O] by blast
  have "random_seed r = None"
    using verify_options_Return(3) [OF r] s 2 by simp
  with r have 4: "(case snd (verify_options ?E ?O) of
      Exit status \<Rightarrow> False | Return opts' \<Rightarrow> random_seed opts' = None)"
    by simp
  from 1 2 3 4 show ?thesis by blast
qed



text \<open>
  Claim C9. Minimum forest size. For \<open>n_trees < 10\<close>, positive values included,
  \<open>verify_options\<close> writes the message on the number of trees and exits with status -1.
  For \<open>n_trees \<ge> 10\<close> it does not write that message, and whether it exits is what it
  would be with \<open>n_trees = 10\<close>: no value from 10 on is rejected for being what it is.
\<close>

theorem too_few_trees_fatal:
  "(n_trees opts < 10 \<longrightarrow>
      Stderr TooFewTrees \<in> set (fst (verify_options env opts)) \<and>
      snd (verify_options env opts) = Exit (- 1)) \<and>
   (10 \<le> n_trees opts \<longrightarrow>
      Stderr TooFewTrees \<notin> set (fst (verify_options env opts)) \<and>
      (snd (verify_options env opts) = Exit (- 1) \<longleftrightarrow>
       snd (verify_options env (opts\<lparr>n_trees := 10\<rparr>)) = Exit (- 1)))"
  by (simp add: verify_options_diag verify_options_exit_iff)

theorem too_few_trees_fatal_witness:
  "let env = \<lparr>N_RF_BOOTSTRAP = 3, nprocessors_conf = 4, cmdline_getoptions = Return,
                time_now = 0, strtod = (\<lambda>s. Fin 0), atof = (\<lambda>s. Fin 0)\<rparr>;
       opts = (init_options env)\<lparr>qvcf_fname := ''q.vcf'', rvcf_fname := ''r.vcf'',
                genetic_fname := ''g.map'', class_fname := ''s.map'',
                output_basename := ''out'', rf_window_size := 1, crf_spacing := 1,
                chromosome := ''1''\<rparr>
   in n_trees (opts\<lparr>n_trees := 9\<rparr>) < 10 \<and>
      Stderr TooFewTrees \<in> set (fst (verify_options env (opts\<lparr>n_trees := 9\<rparr>))) \<and>
      snd (verify_options env (opts\<lparr>n_trees := 9\<rparr>)) = Exit (- 1) \<and>
      10 \<le> n_trees opts \<and>
      Stderr TooFewTrees \<notin> set (fst (verify_options env opts))"
  using
    too_few_trees_fatal [of
      "(init_options \<lparr>N_RF_BOOTSTRAP = 3, nprocessors_conf = 4, cmdline_getoptions = Return,
                time_now = 0, strtod = (\<lambda>s. Fin 0), atof = (\<lambda>s. Fin 0)\<rparr>)
          \<lparr>qvcf_fname := ''q.vcf'', rvcf_fname := ''r.vcf'',
                genetic_fname := ''g.map'', class_fname := ''s.map'',
                output_basename := ''out'', rf_window_size := 1, crf_spacing := 1,
                chromosome := ''1'', n_trees := 9\<rparr>"
      "\<lparr>N_RF_BOOTSTRAP = 3, nprocessors_conf = 4, cmdline_getoptions = Return,
                time_now = 0, strtod = (\<lambda>s. Fin 0), atof = (\<lambda>s. Fin 0)\<rparr>"]
    too_few_trees_fatal [of
      "(init_options \<lparr>N_RF_BOOTSTRAP = 3, nprocessors_conf = 4, cmdline_getoptions = Return,
                time_now = 0, strtod = (\<lambda>s. Fin 0), atof = (\<lambda>s. Fin 0)\<rparr>)
          \<lparr>qvcf_fname := ''q.vcf'', rvcf_fname := ''r.vcf'',
                genetic_fname := ''g.map'', class_fname := ''s.map'',
                output_basename := ''out'', rf_window_size := 1, crf_spacing := 1,
                chromosome := ''1''\<rparr>"
      "\<lparr>N_RF_BOOTSTRAP = 3, nprocessors_conf = 4, cmdline_getoptions = Return,
                time_now = 0, strtod = (\<lambda>s. Fin 0), atof = (\<lambda>s. Fin 0)\<rparr>"]
  by (simp add: Let_def init_options_def)

text \<open>
  Claim C10 says that the defaults of \<open>init_options\<close> pass the validation once the five
  file names and the chromosome are given. They do not: \<open>rf_window_size\<close> and
  \<open>crf_spacing\<close> are \<open>int\<close> fields, so the defaults 0.2 and 0.1 are stored as 0, the
  checks \<open>rf_window_size <= 0\<close> and \<open>crf_spacing <= 0\<close> fire, and \<open>verify_options\<close>
  exits with status -1 after writing both messages. This holds for every environment.
\<close>

theorem defaults_rejected:
  "rf_window_size (init_options env) = 0 \<and> crf_spacing (init_options env) = 0 \<and>
   snd (verify_options env
     ((init_options env)\<lparr>qvcf_fname := ''query.vcf'', rvcf_fname := ''reference.vcf'',
        class_fname := ''samples.map'', genetic_fname := ''genetic.map'',
        output_basename := ''out'', chromosome := ''1''\<rparr>)) = Exit (- 1) \<and>
   Stderr RfWindowSize \<in> set (fst (verify_options env
     ((init_options env)\<lparr>qvcf_fname := ''query.vcf'', rvcf_fname := ''reference.vcf'',
        class_fname := ''samples.map'', genetic_fname := ''genetic.map'',
        output_basename := ''out'', chromosome := ''1''\<rparr>))) \<and>
   Stderr CrfSpacing \<in> set (fst (verify_options env
     ((init_options env)\<lparr>qvcf_fname := ''query.vcf'', rvcf_fname := ''reference.vcf'',
        class_fname := ''samples.map'', genetic_fname := ''genetic.map'',
        output_basename := ''out'', chromosome := ''1''\<rparr>)))"
  by (simp add: verify_options_diag verify_options_exit_iff init_options_def trunc_def)

end
